theory Spec2Isabelle
  imports Main
begin

section \<open>Errors\<close>

text \<open>
  Every \<^verbatim>\<open>raise\<close> of the two source files, and every exception the numpy
  primitives they call can throw, is one constructor, so that a result says which
  statement failed. \<open>python_class\<close> is the Python exception class of the raise
  statement, read from the source.
\<close>

datatype error =
    TagsNegative            \<comment> \<open>union.py: "tags must be a non-negative array"\<close>
  | IndexNegative           \<comment> \<open>union.py: "index must be a non-negative array"\<close>
  | ContentsEmpty           \<comment> \<open>union.py: "contents must be a non-empty iterable"\<close>
  | FromtagsMaxTag          \<comment> \<open>union.py, fromtags: "maximum tag is ... but there are only ..."\<close>
  | TagsLength              \<comment> \<open>union.py, valid: "tags length ... must be less than or equal to index length"\<close>
  | TagsDimensionality      \<comment> \<open>union.py, valid: "tags dimensionality ... must be equal to index dimensionality"\<close>
  | ValidMaxTag             \<comment> \<open>union.py, valid: "maximum tag is ... but there are only ..."\<close>
  | ValidMaxIndex           \<comment> \<open>union.py, valid: "maximum index ... must be less than the length of all contents arrays"\<close>
  | UnionOutOfBounds        \<comment> \<open>union.py, getitem: "index ... is out of bounds for size ..."\<close>
  | UnionNotImplemented     \<comment> \<open>union.py, getitem: slice or other leading index\<close>
  | UnionNoContent          \<comment> \<open>union.py, getitem: the attribute \_content that a string index reads\<close>
  | ZeroSizeReduction       \<comment> \<open>numpy: max of an empty array\<close>
  | BufferIndex             \<comment> \<open>numpy and tuple: index out of bounds\<close>
  | IntegerBeyondRange      \<comment> \<open>study\_indexing.py: "integer index is beyond the range of one of the ... pairs"\<close>
  | SliceStepZero           \<comment> \<open>study\_indexing.py: bare ValueError for a slice step of 0\<close>
  | AdvancedOutOfBounds     \<comment> \<open>study\_indexing.py: "advanced index is out of bounds in JaggedArray"\<close>
  | AdvancedLengths         \<comment> \<open>study\_indexing.py: "advanced index lengths do not match"\<close>
  | SpreadAssertion         \<comment> \<open>study\_indexing.py, spread\_advanced: the assert on the three lengths\<close>
  | NegativeDimensions      \<comment> \<open>numpy: full with a negative length\<close>
  | TermNotImplemented      \<comment> \<open>study\_indexing.py, getitem\_next: NotImplementedError(head)\<close>

datatype python_exception =
  ValueError | IndexError | NotImplementedError | AssertionError | AttributeError

fun python_class :: "error \<Rightarrow> python_exception" where
  "python_class TagsNegative = ValueError"
| "python_class IndexNegative = ValueError"
| "python_class ContentsEmpty = ValueError"
| "python_class FromtagsMaxTag = ValueError"
| "python_class TagsLength = ValueError"
| "python_class TagsDimensionality = ValueError"
| "python_class ValidMaxTag = ValueError"
| "python_class ValidMaxIndex = ValueError"
| "python_class UnionOutOfBounds = IndexError"
| "python_class UnionNotImplemented = NotImplementedError"
| "python_class UnionNoContent = AttributeError"
| "python_class ZeroSizeReduction = ValueError"
| "python_class BufferIndex = IndexError"
| "python_class IntegerBeyondRange = ValueError"
| "python_class SliceStepZero = ValueError"
| "python_class AdvancedOutOfBounds = IndexError"
| "python_class AdvancedLengths = IndexError"
| "python_class SpreadAssertion = AssertionError"
| "python_class NegativeDimensions = ValueError"
| "python_class TermNotImplemented = NotImplementedError"

text \<open>
  Modelled from the spec: the error taxonomy of its section 7, which is no code of the
  repository. It names four classes by what went wrong, not by the Python class raised:
  ConstructionError (negative tag or index values, empty contents, maximum tag beyond the
  content count at construction), ValidityError (violations found by lazy validation),
  IndexError (out-of-range integer row index, integer index beyond a row's available
  span, out-of-range advanced index, advanced-index length mismatch) and
  UnsupportedOperationError. An error the taxonomy does not list has no class.
\<close>

datatype spec_error_class =
  ConstructionErrorClass | ValidityErrorClass | IndexErrorClass | UnsupportedOperationClass

fun spec_class :: "error \<Rightarrow> spec_error_class option" where
  "spec_class TagsNegative = Some ConstructionErrorClass"
| "spec_class IndexNegative = Some ConstructionErrorClass"
| "spec_class ContentsEmpty = Some ConstructionErrorClass"
| "spec_class FromtagsMaxTag = Some ConstructionErrorClass"
| "spec_class TagsLength = Some ValidityErrorClass"
| "spec_class TagsDimensionality = Some ValidityErrorClass"
| "spec_class ValidMaxTag = Some ValidityErrorClass"
| "spec_class ValidMaxIndex = Some ValidityErrorClass"
| "spec_class UnionOutOfBounds = Some IndexErrorClass"
| "spec_class UnionNotImplemented = Some UnsupportedOperationClass"
| "spec_class UnionNoContent = None"
| "spec_class ZeroSizeReduction = None"
| "spec_class BufferIndex = Some IndexErrorClass"
| "spec_class IntegerBeyondRange = Some IndexErrorClass"
| "spec_class SliceStepZero = None"
| "spec_class AdvancedOutOfBounds = Some IndexErrorClass"
| "spec_class AdvancedLengths = Some IndexErrorClass"
| "spec_class SpreadAssertion = None"
| "spec_class NegativeDimensions = None"
| "spec_class TermNotImplemented = Some UnsupportedOperationClass"

section \<open>The buffer primitives\<close>

text \<open>
  numpy is not code of this repository. The three operations of a one-dimensional
  integer-indexed buffer that the source relies on are written out with numpy's
  behaviour: \<^verbatim>\<open>xs[i]\<close> counts a negative \<open>i\<close> from the end and raises IndexError
  outside \<open>[-len, len)\<close> (a Python tuple does the same); \<^verbatim>\<open>xs[index]\<close> with an
  integer array gathers a copy; \<^verbatim>\<open>xs.max()\<close> raises ValueError on an empty array.
  Integers are unbounded: the 64-bit width of the index arrays plays no part in any
  property below.
\<close>

definition np_get :: "'a list \<Rightarrow> int \<Rightarrow> error + 'a" where
  "np_get xs i =
     (let n = int (length xs)
      in if - n \<le> i \<and> i < n then Inr (xs ! nat (if i < 0 then i + n else i))
         else Inl BufferIndex)"

fun np_take :: "'a list \<Rightarrow> int list \<Rightarrow> error + 'a list" where
  "np_take xs [] = Inr []"
| "np_take xs (i # is) =
     (case np_get xs i of
        Inl e \<Rightarrow> Inl e
      | Inr x \<Rightarrow> (case np_take xs is of Inl e \<Rightarrow> Inl e | Inr ys \<Rightarrow> Inr (x # ys)))"

fun np_max :: "int list \<Rightarrow> error + int" where
  "np_max [] = Inl ZeroSizeReduction"
| "np_max (x # xs) = Inr (fold max xs x)"

section \<open>The tagged-union container (awkward/array/union.py)\<close>

text \<open>
  \<open>tags\<close> and \<open>index\<close> are one-dimensional integer arrays and every content is a
  one-dimensional array of elements, as in the spec's data model; \<open>isvalid\<close> is the
  cached validity flag. Both constructors set the private view to None and nothing in the
  file assigns it afterwards, so a read always takes the branch
  \<^verbatim>\<open>start, step, length, oldtail = 0, 1, len(self._tags), ()\<close>.
\<close>

record 'a UnionArray =
  tags :: "int list"
  index :: "int list"
  contents :: "'a list list"
  isvalid :: bool

text \<open>
  \<^verbatim>\<open>__init__\<close> runs the three setters in the order tags, index, contents. Each
  setter checks its own value only and clears the validity flag. The dtype test of the
  first two cannot fail on an integer list.
\<close>

definition UnionArray_init :: "int list \<Rightarrow> int list \<Rightarrow> 'a list list \<Rightarrow> error + 'a UnionArray" where
  "UnionArray_init tgs idx cts =
     (if \<exists>t \<in> set tgs. t < 0 then Inl TagsNegative
      else if \<exists>i \<in> set idx. i < 0 then Inl IndexNegative
      else if cts = [] then Inl ContentsEmpty
      else Inr \<lparr>tags = tgs, index = idx, contents = cts, isvalid = False\<rparr>)"

text \<open>
  \<^verbatim>\<open>out._index[mask] = arange(count_nonzero(mask))\<close> with \<^verbatim>\<open>mask = (tags == tag)\<close>:
  the positions carrying \<open>tag\<close> receive 0, 1, 2, ... in order; \<open>c\<close> is the next offset.
\<close>

fun mask_assign :: "int \<Rightarrow> int list \<Rightarrow> int list \<Rightarrow> int \<Rightarrow> int list" where
  "mask_assign tag (t # ts) (i # is) c =
     (if t = tag then c # mask_assign tag ts is (c + 1) else i # mask_assign tag ts is c)"
| "mask_assign tag ts is c = is"

text \<open>\<^verbatim>\<open>for tag, content in enumerate(out._contents)\<close>, from tag \<open>tag\<close> on.\<close>

fun fromtags_loop :: "int \<Rightarrow> 'a list list \<Rightarrow> int list \<Rightarrow> int list \<Rightarrow> int list" where
  "fromtags_loop tag [] tgs idx = idx"
| "fromtags_loop tag (content # rest) tgs idx =
     fromtags_loop (tag + 1) rest tgs (mask_assign tag tgs idx 0)"

text \<open>
  \<^verbatim>\<open>fromtags\<close>. \<^verbatim>\<open>numpy.empty\<close> returns uninitialised memory: \<open>junk\<close> stands for
  what the fresh index array holds before the loop writes it.
\<close>

definition fromtags :: "int \<Rightarrow> int list \<Rightarrow> 'a list list \<Rightarrow> error + 'a UnionArray" where
  "fromtags junk tgs cts =
     (if \<exists>t \<in> set tgs. t < 0 then Inl TagsNegative
      else if cts = [] then Inl ContentsEmpty
      else case np_max tgs of
             Inl e \<Rightarrow> Inl e
           | Inr m \<Rightarrow>
               if m \<ge> int (length cts) then Inl FromtagsMaxTag
               else Inr \<lparr>tags = tgs,
                         index = fromtags_loop 0 cts tgs (replicate (length tgs) junk),
                         contents = cts, isvalid = False\<rparr>)"

text \<open>
  The last loop of \<^verbatim>\<open>_valid\<close>:
  \<^verbatim>\<open>for x in self._contents: if maxindex >= len(self._contents): raise ValueError(...)\<close>.
  The bound is the number of contents \<open>k\<close>; the loop variable is not read.
\<close>

fun valid_loop :: "'a list list \<Rightarrow> int \<Rightarrow> int \<Rightarrow> error + unit" where
  "valid_loop [] maxindex k = Inr ()"
| "valid_loop (x # xs) maxindex k =
     (if maxindex \<ge> k then Inl ValidMaxIndex else valid_loop xs maxindex k)"

text \<open>The shape of a one-dimensional array.\<close>

definition shape1 :: "'b list \<Rightarrow> nat list" where
  "shape1 xs = [length xs]"

text \<open>
  \<^verbatim>\<open>_valid\<close>: nothing is checked when the flag is set; otherwise the two shape checks,
  the tag range, the index range, and the flag is set. A raise leaves the flag as it was.
\<close>

definition valid :: "'a UnionArray \<Rightarrow> error + 'a UnionArray" where
  "valid u =
     (if isvalid u then Inr u
      else if length (shape1 (tags u)) > length (shape1 (index u)) then Inl TagsLength
      else if tl (shape1 (tags u)) \<noteq> tl (shape1 (index u)) then Inl TagsDimensionality
      else case np_max (tags u) of
             Inl e \<Rightarrow> Inl e
           | Inr maxtag \<Rightarrow>
               if maxtag \<ge> int (length (contents u)) then Inl ValidMaxTag
               else case np_max (take (length (tags u)) (index u)) of
                      Inl e \<Rightarrow> Inl e
                    | Inr maxindex \<Rightarrow>
                        (case valid_loop (contents u) maxindex (int (length (contents u))) of
                           Inl e \<Rightarrow> Inl e
                         | Inr _ \<Rightarrow> Inr (u\<lparr>isvalid := True\<rparr>)))"

text \<open>
  The argument of a read: an integer, a slice, a string or a sequence of strings (what
  \<^verbatim>\<open>isstringslice\<close> accepts), the empty tuple, or any other single term; a tuple of
  one term reads as that term. A read returns an element, or the container itself.

  The read validates first. A string index then evaluates \<^verbatim>\<open>self._content[where]\<close>,
  an attribute that no method of the class assigns (the class has \<open>_contents\<close>), and the
  empty tuple returns the container, which validation has just flagged valid. Otherwise
  the leading term decides: an integer is normalised by the length when negative, checked
  against the range, and answered by
  \<^verbatim>\<open>self._contents[self._tags[head]][(self._index[head],) + oldtail + tail]\<close>
  with empty \<open>oldtail\<close> and \<open>tail\<close>; a slice and anything else are not implemented.
\<close>

datatype where_term = WInt int | WSlice | WString | WEmptyTuple | WOther

datatype 'a read_result = Element 'a | Container "'a UnionArray"

definition getitem :: "'a UnionArray \<Rightarrow> where_term \<Rightarrow> error + 'a read_result" where
  "getitem u w =
     (case valid u of
        Inl e \<Rightarrow> Inl e
      | Inr u' \<Rightarrow>
          (case w of
             WString \<Rightarrow> Inl UnionNoContent
           | WEmptyTuple \<Rightarrow> Inr (Container u')
           | WInt h0 \<Rightarrow>
               (let len = int (length (tags u'));
                    h = (if h0 < 0 then h0 + len else h0)
                in if \<not> (0 \<le> h \<and> h < len) then Inl UnionOutOfBounds
                   else case np_get (tags u') h of
                          Inl e \<Rightarrow> Inl e
                        | Inr tag \<Rightarrow>
                            (case np_get (contents u') tag of
                               Inl e \<Rightarrow> Inl e
                             | Inr content \<Rightarrow>
                                 (case np_get (index u') h of
                                    Inl e \<Rightarrow> Inl e
                                  | Inr i \<Rightarrow>
                                      (case np_get content i of
                                         Inl e \<Rightarrow> Inl e
                                       | Inr x \<Rightarrow> Inr (Element x)))))
           | WSlice \<Rightarrow> Inl UnionNotImplemented
           | WOther \<Rightarrow> Inl UnionNotImplemented))"

text \<open>
  Modelled from the spec: the invariants of a tagged-union container in its section 3,
  on one-dimensional \<open>tags\<close> and \<open>index\<close>: at least one content, \<open>index\<close> at least as
  long as \<open>tags\<close>, no negative index, and at every position a tag within \<open>[0, K)\<close>
  and an index below the length of the content that the tag selects.
\<close>

definition invariants :: "'a UnionArray \<Rightarrow> bool" where
  "invariants u =
     (contents u \<noteq> []
      \<and> length (tags u) \<le> length (index u)
      \<and> list_all (\<lambda>i. 0 \<le> i) (index u)
      \<and> list_all (\<lambda>(t, i). 0 \<le> t \<and> t < int (length (contents u))
                              \<and> i < int (length (contents u ! nat t)))
           (zip (tags u) (index u)))"

text \<open>
  The element type of an array, as far as \<^verbatim>\<open>dtype\<close> tells types apart: the sixteen
  numeric types the property names, and \<open>str_\<close> and \<open>object_\<close> for what is neither a
  number nor a boolean.
\<close>

datatype scalar_type =
    np_bool | np_int8 | np_uint8 | np_int16 | np_uint16 | np_int32 | np_uint32 | np_int64 | np_uint64
  | np_float16 | np_float32 | np_float64 | np_float128
  | np_complex64 | np_complex128 | np_complex256
  | np_str | np_object

definition is_integer :: "scalar_type \<Rightarrow> bool" where
  "is_integer t = (t \<in> set [np_int8, np_uint8, np_int16, np_uint16, np_int32, np_uint32, np_int64, np_uint64])"

definition is_floating :: "scalar_type \<Rightarrow> bool" where
  "is_floating t = (t \<in> set [np_float16, np_float32, np_float64, np_float128])"

definition is_complexfloating :: "scalar_type \<Rightarrow> bool" where
  "is_complexfloating t = (t \<in> set [np_complex64, np_complex128, np_complex256])"

text \<open>What the properties read of a content array: its element type and its shape.\<close>

record content_info =
  ctype :: scalar_type
  cshape :: "nat list"

text \<open>\<^verbatim>\<open>dtype\<close>: the chain of \<^verbatim>\<open>all(issubclass(x.dtype.type, ...))\<close> tests, in order.\<close>

definition dtype :: "content_info list \<Rightarrow> scalar_type" where
  "dtype cs =
     (let every = (\<lambda>ts. list_all (\<lambda>x. ctype x \<in> set ts) cs)
      in if every [np_bool] then np_bool
         else if every [np_int8] then np_int8
         else if every [np_uint8] then np_uint8
         else if every [np_int8, np_uint8, np_int16] then np_int16
         else if every [np_uint8, np_uint16] then np_uint16
         else if every [np_int8, np_uint8, np_int16, np_uint16, np_int32] then np_int32
         else if every [np_uint8, np_uint16, np_uint32] then np_uint32
         else if every [np_int8, np_uint8, np_int16, np_uint16, np_int32, np_uint32, np_int64] then np_int64
         else if every [np_uint8, np_uint16, np_uint32, np_uint64] then np_uint64
         else if every [np_float16] then np_float16
         else if every [np_float16, np_float32] then np_float32
         else if every [np_float16, np_float32, np_float64] then np_float64
         else if every [np_float16, np_float32, np_float64, np_float128] then np_float128
         else if list_all (\<lambda>x. is_integer (ctype x) \<or> is_floating (ctype x)) cs then np_float64
         else if every [np_complex64] then np_complex64
         else if every [np_complex64, np_complex128] then np_complex128
         else if every [np_complex64, np_complex128, np_complex256] then np_complex256
         else if list_all (\<lambda>x. is_integer (ctype x) \<or> is_floating (ctype x)
                                  \<or> is_complexfloating (ctype x)) cs then np_complex256
         else np_object)"

text \<open>
  \<^verbatim>\<open>shape\<close>, from the shape of \<open>tags\<close> and the contents (the setter guarantees at least
  one). \<^verbatim>\<open>dtype.kind == "O"\<close> holds exactly of \<open>np_object\<close>.
\<close>

definition shape :: "nat list \<Rightarrow> content_info list \<Rightarrow> nat list" where
  "shape tags_shape cs =
     (let first = cshape (hd cs)
      in if dtype cs = np_object \<or> \<not> list_all (\<lambda>x. cshape x = first) (tl cs)
         then tags_shape
         else tags_shape @ first)"

section \<open>Properties of the tagged-union container\<close>

lemma np_max_Max: "xs \<noteq> [] \<Longrightarrow> np_max xs = Inr (Max (set xs))"
  by (cases xs) (simp_all add: Max.set_eq_fold [symmetric])

lemma valid_loop_eq:
  "valid_loop cs m k = (if cs \<noteq> [] \<and> m \<ge> k then Inl ValidMaxIndex else Inr ())"
  by (induction cs) auto

text \<open>
  Claim C7. The ordinary constructor accepts a tag that is at least the number of
  contents: whenever the three setters pass and some tag is out of range, construction
  returns a container with the validity flag cleared, an explicit validation raises the
  tag-range error, and so does every later read, whatever its index.
\<close>

theorem C7_deferred_validation:
  assumes "\<forall>t \<in> set tgs. 0 \<le> t" and "\<forall>i \<in> set idx. 0 \<le> i" and "cts \<noteq> []"
    and "\<exists>t \<in> set tgs. int (length cts) \<le> t"
  shows "\<exists>u. UnionArray_init tgs idx cts = Inr u \<and> \<not> isvalid u
           \<and> valid u = Inl ValidMaxTag \<and> (\<forall>w. getitem u w = Inl ValidMaxTag)"
proof -
  let ?u = "\<lparr>tags = tgs, index = idx, contents = cts, isvalid = False\<rparr>"
  from assms(4) have ne: "tgs \<noteq> []" by auto
  from assms(4) have "int (length cts) \<le> Max (set tgs)"
    by (meson List.finite_set Max_ge order_trans)
  with ne have v: "valid ?u = Inl ValidMaxTag"
    by (simp add: valid_def shape1_def np_max_Max)
  have i: "UnionArray_init tgs idx cts = Inr ?u"
    using assms(1-3) by (auto simp: UnionArray_init_def)
  have "\<forall>w. getitem ?u w = Inl ValidMaxTag"
    by (simp add: getitem_def v)
  with v i show ?thesis by simp
qed

text \<open>The theorem at tags \<open>[0, 2]\<close> over two contents.\<close>

theorem C7_deferred_validation_witness:
  "UnionArray_init [0, 2] [0, 0] [[10, 20], [99 :: int]]
     = Inr \<lparr>tags = [0, 2], index = [0, 0], contents = [[10, 20], [99]], isvalid = False\<rparr>
   \<and> valid \<lparr>tags = [0, 2], index = [0, 0], contents = [[10, 20], [99 :: int]], isvalid = False\<rparr>
     = Inl ValidMaxTag
   \<and> getitem \<lparr>tags = [0, 2], index = [0, 0], contents = [[10, 20], [99 :: int]], isvalid = False\<rparr> (WInt 0)
     = Inl ValidMaxTag"
  using C7_deferred_validation [of "[0, 2]" "[0, 0]" "[[10, 20], [99 :: int]]"]
  by (auto simp: UnionArray_init_def)

text \<open>
  What a read at an integer does on a container that passes validation. Outside
  \<open>[-L, L)\<close>, with \<open>L\<close> the number of tags, it raises the container's IndexError. At a
  negative \<open>i\<close> from \<open>-L\<close> on, when the invariants hold as well, it returns the element
  \<open>contents[tags[i + L]][index[i + L]]\<close>, which is also what the read at \<open>i + L\<close> returns.
\<close>

lemma valid_fields:
  "valid u = Inr u' \<Longrightarrow> tags u' = tags u \<and> index u' = index u \<and> contents u' = contents u"
  by (auto simp: valid_def split: if_splits sum.splits)

lemma getitem_out_of_range:
  assumes "valid u = Inr u'"
    and "i < - int (length (tags u)) \<or> int (length (tags u)) \<le> i"
  shows "getitem u (WInt i) = Inl UnionOutOfBounds"
  using assms valid_fields [OF assms(1)] by (auto simp: getitem_def Let_def)

lemma getitem_in_range:
  assumes "invariants u" and "valid u = Inr u'" and "0 \<le> h" and "h < int (length (tags u))"
  shows "getitem u (WInt h)
           = Inr (Element (contents u ! nat (tags u ! nat h) ! nat (index u ! nat h)))"
proof -
  let ?k = "nat h"
  from assms(3,4) have k: "?k < length (tags u)" by simp
  with assms(1) have ki: "?k < length (index u)" by (simp add: invariants_def)
  from k ki have "(tags u ! ?k, index u ! ?k) \<in> set (zip (tags u) (index u))"
    by (metis in_set_zip fst_conv snd_conv length_zip min_less_iff_conj nth_zip)
  with assms(1) have t: "0 \<le> tags u ! ?k" "tags u ! ?k < int (length (contents u))"
    and i: "index u ! ?k < int (length (contents u ! nat (tags u ! ?k)))"
    by (auto simp: invariants_def list_all_iff)
  from assms(1) ki have i0: "0 \<le> index u ! ?k"
    by (auto simp: invariants_def list_all_iff)
  from assms(3,4) k ki t i i0 show ?thesis
    using valid_fields [OF assms(2)] assms(2)
    by (simp add: getitem_def Let_def np_get_def)
qed

lemma getitem_negative:
  assumes "invariants u" and "valid u = Inr u'"
    and "- int (length (tags u)) \<le> i" and "i < 0"
  shows "getitem u (WInt i) = getitem u (WInt (i + int (length (tags u))))"
  using assms(2-4) valid_fields [OF assms(2)] by (simp add: getitem_def Let_def)

text \<open>
  Claim C9. A valid container of length \<open>L\<close> is claimed to return at \<open>i\<close> with
  \<open>-L \<le> i < 0\<close> the element at \<open>i + L\<close>, and to raise IndexError outside \<open>[-L, L)\<close>.
  The container with tags \<open>[0, 0]\<close> and index \<open>[0, 1]\<close> over the single content
  \<open>[10, 20]\<close> satisfies every invariant, and direct lookup gives its last element as
  20. Every read of it stops in the validation routine, which compares the largest index,
  1, with the number of contents, 1: the read at \<open>-1\<close> returns no element, and the reads
  at 2 and at \<open>-3\<close>, outside the range, raise that ValueError and not an IndexError.
\<close>

theorem C9_read_stops_in_validation:
  "invariants \<lparr>tags = [0, 0], index = [0, 1], contents = [[10, 20 :: int]], isvalid = False\<rparr>
   \<and> np_get [10, 20 :: int] 1 = Inr 20
   \<and> getitem \<lparr>tags = [0, 0], index = [0, 1], contents = [[10, 20 :: int]], isvalid = False\<rparr> (WInt (- 1))
     = Inl ValidMaxIndex
   \<and> getitem \<lparr>tags = [0, 0], index = [0, 1], contents = [[10, 20 :: int]], isvalid = False\<rparr> (WInt 1)
     = Inl ValidMaxIndex
   \<and> getitem \<lparr>tags = [0, 0], index = [0, 1], contents = [[10, 20 :: int]], isvalid = False\<rparr> (WInt 2)
     = Inl ValidMaxIndex
   \<and> getitem \<lparr>tags = [0, 0], index = [0, 1], contents = [[10, 20 :: int]], isvalid = False\<rparr> (WInt (- 3))
     = Inl ValidMaxIndex
   \<and> python_class ValidMaxIndex = ValueError"
  by (simp add: invariants_def valid_def shape1_def getitem_def np_get_def)

text \<open>
  Claim C2. The validation routine is claimed to check \<open>index[i] < len(contents[tags[i]])\<close>
  at every position. Its last loop compares the largest index with the number of contents
  instead, so it accepts the container below, where \<open>index[1] = 1\<close> is not below the
  length 1 of \<open>contents[1]\<close> (the read at position 1 then fails inside the buffer), and it
  rejects a container whose only index 2 is within its content of length 3.
\<close>

theorem C2_valid_checks_content_count:
  "valid \<lparr>tags = [0, 1], index = [0, 1], contents = [[10, 20], [99 :: int]], isvalid = False\<rparr>
     = Inr \<lparr>tags = [0, 1], index = [0, 1], contents = [[10, 20], [99]], isvalid = True\<rparr>
   \<and> getitem \<lparr>tags = [0, 1], index = [0, 1], contents = [[10, 20], [99 :: int]], isvalid = False\<rparr> (WInt 1)
     = Inl BufferIndex
   \<and> valid \<lparr>tags = [0], index = [2], contents = [[10, 20, 30 :: int]], isvalid = False\<rparr>
     = Inl ValidMaxIndex"
  by (simp add: valid_def shape1_def getitem_def np_get_def)

text \<open>
  Claim C6. After \<open>fromtags\<close> on tags \<open>[0, 0]\<close> over the single content \<open>[10, 20]\<close>
  the derived index is \<open>[0, 1]\<close>, and the read at position 0, which direct lookup
  resolves to 10, raises the validation error: the largest index, 1, is not below the
  number of contents, 1.
\<close>

theorem C6_fromtags_read_fails:
  "fromtags junk [0, 0] [[10, 20 :: int]]
     = Inr \<lparr>tags = [0, 0], index = [0, 1], contents = [[10, 20]], isvalid = False\<rparr>
   \<and> getitem \<lparr>tags = [0, 0], index = [0, 1], contents = [[10, 20 :: int]], isvalid = False\<rparr> (WInt 0)
     = Inl ValidMaxIndex
   \<and> np_get [10, 20 :: int] 0 = Inr 10"
  by (simp add: fromtags_def valid_def shape1_def getitem_def np_get_def numeral_2_eq_2)

text \<open>
  Claim C8. \<open>shape\<close> compares the whole shapes of the contents and appends the whole
  shape of the first one, leading axis included. Two integer contents of shape \<open>(2,)\<close>
  under three tags give \<open>(3, 2)\<close>, where the shared trailing shape is empty; contents of
  shapes \<open>(2, 3)\<close> and \<open>(1, 3)\<close> share the trailing shape \<open>(3,)\<close> and give the shape of
  the tags alone.
\<close>

theorem C8_shape_appends_whole_shape:
  "shape [3] [\<lparr>ctype = np_int64, cshape = [2]\<rparr>, \<lparr>ctype = np_int64, cshape = [2]\<rparr>] = [3, 2]
   \<and> shape [2] [\<lparr>ctype = np_int64, cshape = [2, 3]\<rparr>, \<lparr>ctype = np_int64, cshape = [1, 3]\<rparr>] = [2]"
  by (simp add: shape_def dtype_def)

end
